theory Spec2Isabelle
  imports Main
begin

section \<open>Strings\<close>

text \<open>
  JavaScript strings are modelled as \<^typ>\<open>string\<close>, a list of 8-bit characters holding
  the UTF-8 bytes of the text. The string methods the viewer uses are written out below.
  \<open>toLowerCase\<close> is modelled on the ASCII letters \<open>A\<close> to \<open>Z\<close>; every other byte is left as it
  is, which is what JavaScript does on ASCII text. JavaScript also lowercases capital
  letters outside ASCII (the Kelvin sign to \<open>k\<close>, for one), so file names and MIME types
  with such letters are outside the model.
\<close>

definition upper_letters :: string where
  "upper_letters = ''ABCDEFGHIJKLMNOPQRSTUVWXYZ''"

definition lower_letters :: string where
  "lower_letters = ''abcdefghijklmnopqrstuvwxyz''"

definition toLowerCase_char :: "char \<Rightarrow> char" where
  "toLowerCase_char c =
     (case map_of (zip upper_letters lower_letters) c of None \<Rightarrow> c | Some l \<Rightarrow> l)"

definition toLowerCase :: "string \<Rightarrow> string" where
  "toLowerCase s = map toLowerCase_char s"

text \<open>\<open>s.startsWith(p)\<close>.\<close>

definition startsWith :: "string \<Rightarrow> string \<Rightarrow> bool" where
  "startsWith s p = (take (length p) s = p)"

text \<open>
  \<open>s.split(c)\<close> for a one-character separator: the pieces between the separators, in order.
  The result is never empty (\<open>''''.split('.')\<close> is \<open>['''']\<close>).
\<close>

fun split :: "char \<Rightarrow> string \<Rightarrow> string list" where
  "split c [] = [[]]"
| "split c (x # xs) =
     (if x = c then [] # split c xs
      else (case split c xs of [] \<Rightarrow> [[x]] | p # ps \<Rightarrow> (x # p) # ps))"

text \<open>\<open>a.pop()\<close> read for its value: the last element, \<open>undefined\<close> on an empty array.\<close>

definition pop :: "'a list \<Rightarrow> 'a option" where
  "pop xs = (if xs = [] then None else Some (last xs))"

text \<open>\<open>a.includes(x)\<close>.\<close>

definition includes' :: "'a list \<Rightarrow> 'a \<Rightarrow> bool" where
  "includes' xs x = (x \<in> set xs)"

text \<open>\<open>s || ''\<close> for an optional string: \<open>undefined\<close> and the empty string both give \<open>''\<close>.\<close>

definition or_empty :: "string option \<Rightarrow> string" where
  "or_empty s = (case s of None \<Rightarrow> [] | Some t \<Rightarrow> t)"

text \<open>The Turkish letters of the messages, as UTF-8 bytes.\<close>

definition u_diaeresis :: string where
  "u_diaeresis = [CHR 0xC3, CHR 0xBC]"

definition s_cedilla :: string where
  "s_cedilla = [CHR 0xC5, CHR 0x9F]"

definition dotless_i :: string where
  "dotless_i = [CHR 0xC4, CHR 0xB1]"

definition capital_dotted_I :: string where
  "capital_dotted_I = [CHR 0xC4, CHR 0xB0]"

section \<open>The facade: route handlers over the provider\<close>

subsection \<open>The provider\<close>

text \<open>
  An item of the provider's \<open>listFiles()\<close> answer, with the fields the handler reads
  (\<open>id\<close> is \<open>id'\<close> here).
\<close>

record UploadedFile =
  id' :: string
  key :: string
  name :: string
  status :: string
  customId :: "string option"

text \<open>
  The value of the \<open>files\<close> field of an answer of \<open>listFiles()\<close>, when it is truthy: an
  array, each element a file object or \<open>null\<close> (\<open>None\<close>), or a value that is no array
  and so has no \<open>map\<close> method.
\<close>

datatype files_value = FileArray "UploadedFile option list" | NotAnArray

text \<open>
  The answer of \<open>listFiles()\<close>: the handler reads its \<open>files\<close> field only, which is
  \<open>None\<close> when the field is missing or falsy.
\<close>

record ListFilesResponse =
  files :: "files_value option"

text \<open>The answer of \<open>deleteFiles(keys)\<close>: the handler reads its \<open>success\<close> field only.\<close>

record DeleteFilesResponse =
  success :: bool

text \<open>
  What a \<open>catch\<close> clause receives: an \<open>Error\<close> object with its message, or any other
  thrown value. An awaited call either throws or returns.
\<close>

datatype thrown = ErrorObject string | OtherValue

datatype 'a outcome = Throws thrown | Returns 'a

text \<open>\<open>error instanceof Error ? error.message : 'Bilinmeyen hata'\<close>\<close>

definition errorMessage :: "thrown \<Rightarrow> string" where
  "errorMessage e = (case e of ErrorObject m \<Rightarrow> m | OtherValue \<Rightarrow> ''Bilinmeyen hata'')"

text \<open>The calls a handler makes on the provider, in order.\<close>

datatype provider_call = ListFiles | DeleteFiles "string list"

subsection \<open>Responses\<close>

text \<open>A record of the list the handler \<open>GET\<close> returns (\<open>type\<close> and \<open>size\<close> are primed).\<close>

record FormattedFile =
  id' :: string
  key :: string
  name :: string
  url :: string
  status :: string
  customId :: "string option"
  uploadedAt :: string
  type' :: string
  size' :: nat

text \<open>A parsed JSON value, as \<open>request.json()\<close> gives it (numbers as integers).\<close>

datatype json_value =
    JNull
  | JBool bool
  | JNumber int
  | JString string
  | JArray "json_value list"
  | JObject "(string \<times> json_value) list"

text \<open>
  \<open>NextResponse.json(body, {status})\<close>: the HTTP status and the keys of the JSON body; a
  key the body does not have is \<open>None\<close>.
\<close>

record api_response =
  status :: nat
  success :: bool
  files :: "FormattedFile list option"
  total :: "nat option"
  message :: "string option"
  deletedKey :: "string option"
  updatedKey :: "string option"
  updatedData :: "json_value option"
  error :: "string option"
  details :: "string option"

definition json :: "nat \<Rightarrow> bool \<Rightarrow> api_response" where
  "json st ok =
     \<lparr>status = st, success = ok, files = None, total = None, message = None,
      deletedKey = None, updatedKey = None, updatedData = None, error = None, details = None\<rparr>"

definition msg_list_failed :: string where
  "msg_list_failed = ''Dosyalar y'' @ u_diaeresis @ ''klenirken hata olu'' @ s_cedilla @ ''tu''"

definition msg_key_required :: string where
  "msg_key_required = ''Dosya anahtar'' @ dotless_i @ '' (key) gerekli''"

definition msg_deleted :: string where
  "msg_deleted = ''Dosya ba'' @ s_cedilla @ ''ar'' @ dotless_i @ ''yla silindi''"

definition msg_not_deleted :: string where
  "msg_not_deleted = ''Dosya silinemedi''"

definition msg_delete_failed :: string where
  "msg_delete_failed = ''Dosya silinirken hata olu'' @ s_cedilla @ ''tu''"

definition msg_updated :: string where
  "msg_updated = ''Dosya bilgileri g'' @ u_diaeresis @ ''ncellendi''"

definition msg_update_failed :: string where
  "msg_update_failed = ''Dosya g'' @ u_diaeresis @ ''ncellenirken hata olu'' @ s_cedilla @ ''tu''"

subsection \<open>\<open>GET\<close>: list\<close>

text \<open>\<open>file.customId || null\<close>: a missing or empty custom id is \<open>null\<close>.\<close>

definition customId_or_null :: "string option \<Rightarrow> string option" where
  "customId_or_null c = (case c of None \<Rightarrow> None | Some v \<Rightarrow> if v = [] then None else Some v)"

text \<open>
  The callback of \<open>response.files.map\<close>. Its first argument is what
  \<open>new Date().toISOString()\<close> gives when the callback runs.
\<close>

definition formatFile :: "string \<Rightarrow> UploadedFile \<Rightarrow> FormattedFile" where
  "formatFile isoNow file =
     \<lparr>id' = UploadedFile.id' file,
      key = UploadedFile.key file,
      name = UploadedFile.name file,
      url = ''https://utfs.io/f/'' @ UploadedFile.key file,
      status = UploadedFile.status file,
      customId = customId_or_null (UploadedFile.customId file),
      uploadedAt = isoNow,
      type' = ''unknown'',
      size' = 0\<rparr>"

definition empty_list_response :: "api_response" where
  "empty_list_response = (json 200 True)\<lparr>files := Some [], total := Some 0\<rparr>"

text \<open>
  The \<open>TypeError\<close>s the handler's own code can throw, with the messages of V8, the
  engine of Node.js: calling \<open>response.files.map\<close> on a value that is no array, and
  reading \<open>file.id\<close> on a \<open>null\<close> element.
\<close>

definition not_a_function_error :: thrown where
  "not_a_function_error = ErrorObject ''response.files.map is not a function''"

definition null_element_error :: thrown where
  "null_element_error =
     ErrorObject (''Cannot read properties of null (reading '' @ [CHR 0x27] @ ''id''
                  @ [CHR 0x27] @ '')'')"

text \<open>
  \<open>response.files.map(...)\<close> from the \<open>i\<close>-th element on: the formatted records, or what
  the callback throws on the first \<open>null\<close> element.
\<close>

fun format_files ::
  "(nat \<Rightarrow> string) \<Rightarrow> nat \<Rightarrow> UploadedFile option list \<Rightarrow> thrown + FormattedFile list"
where
  "format_files clock i [] = Inr []"
| "format_files clock i (None # rest) = Inl null_element_error"
| "format_files clock i (Some f # rest) =
     (case format_files clock (Suc i) rest of
        Inl e \<Rightarrow> Inl e
      | Inr formatted \<Rightarrow> Inr (formatFile (clock i) f # formatted))"

text \<open>The \<open>catch\<close> block of \<open>GET\<close>.\<close>

definition list_failure :: "thrown \<Rightarrow> api_response" where
  "list_failure e =
     (json 500 False)\<lparr>error := Some msg_list_failed, details := Some (errorMessage e),
                        files := Some [], total := Some 0\<rparr>"

text \<open>
  The handler \<open>GET\<close>. \<open>clock i\<close> is the clock's reading when the \<open>i\<close>-th record is
  formatted; \<open>listFiles\<close> is the outcome of \<open>await utapi.listFiles()\<close>, where a \<open>null\<close> or
  \<open>undefined\<close> answer is \<open>Returns None\<close>. The result is the response and the provider calls
  made.
\<close>

definition GET ::
  "(nat \<Rightarrow> string) \<Rightarrow> ListFilesResponse option outcome \<Rightarrow> api_response \<times> provider_call list"
where
  "GET clock listFiles =
     (case listFiles of
        Throws e \<Rightarrow> (list_failure e, [ListFiles])
      | Returns response \<Rightarrow>
          (case response of
             None \<Rightarrow> (empty_list_response, [ListFiles])
           | Some r \<Rightarrow>
               (case ListFilesResponse.files r of
                  None \<Rightarrow> (empty_list_response, [ListFiles])
                | Some NotAnArray \<Rightarrow> (list_failure not_a_function_error, [ListFiles])
                | Some (FileArray elements) \<Rightarrow>
                    (case format_files clock 0 elements of
                       Inl e \<Rightarrow> (list_failure e, [ListFiles])
                     | Inr formattedFiles \<Rightarrow>
                         ((json 200 True)\<lparr>files := Some formattedFiles,
                                            total := Some (length formattedFiles)\<rparr>,
                          [ListFiles])))))"

subsection \<open>\<open>DELETE\<close>: delete one\<close>

text \<open>
  The handler \<open>DELETE\<close>. \<open>deleteFiles keys\<close> is the outcome of
  \<open>await utapi.deleteFiles(keys)\<close>; \<open>key_param\<close> is \<open>searchParams.get('key')\<close>, \<open>None\<close>
  for \<open>null\<close>. \<open>!fileKey\<close> holds for \<open>null\<close> and for the empty string.
\<close>

definition DELETE ::
  "(string list \<Rightarrow> DeleteFilesResponse outcome) \<Rightarrow> string option
     \<Rightarrow> api_response \<times> provider_call list"
where
  "DELETE deleteFiles key_param =
     (case key_param of
        None \<Rightarrow> ((json 400 False)\<lparr>error := Some msg_key_required\<rparr>, [])
      | Some fileKey \<Rightarrow>
          if fileKey = [] then ((json 400 False)\<lparr>error := Some msg_key_required\<rparr>, [])
          else
            (case deleteFiles [fileKey] of
               Throws e \<Rightarrow>
                 ((json 500 False)\<lparr>error := Some msg_delete_failed,
                                    details := Some (errorMessage e)\<rparr>,
                  [DeleteFiles [fileKey]])
             | Returns deleteResponse \<Rightarrow>
                 if DeleteFilesResponse.success deleteResponse
                 then ((json 200 True)\<lparr>message := Some msg_deleted, deletedKey := Some fileKey\<rparr>,
                       [DeleteFiles [fileKey]])
                 else ((json 400 False)\<lparr>error := Some msg_not_deleted\<rparr>,
                       [DeleteFiles [fileKey]])))"

subsection \<open>\<open>PATCH\<close>: update\<close>

text \<open>
  The handler \<open>PATCH\<close>. \<open>body\<close> is the outcome of \<open>await request.json()\<close>, which the
  handler awaits before it looks at the key.
\<close>

definition PATCH :: "string option \<Rightarrow> json_value outcome \<Rightarrow> api_response \<times> provider_call list" where
  "PATCH key_param body =
     (case body of
        Throws e \<Rightarrow>
          ((json 500 False)\<lparr>error := Some msg_update_failed, details := Some (errorMessage e)\<rparr>,
           [])
      | Returns b \<Rightarrow>
          (case key_param of
             None \<Rightarrow> ((json 400 False)\<lparr>error := Some msg_key_required\<rparr>, [])
           | Some fileKey \<Rightarrow>
               if fileKey = [] then ((json 400 False)\<lparr>error := Some msg_key_required\<rparr>, [])
               else ((json 200 True)\<lparr>message := Some msg_updated, updatedKey := Some fileKey,
                                      updatedData := Some b\<rparr>,
                     [])))"

section \<open>The viewer's file records\<close>

text \<open>The union type \<open>'image' | 'video' | 'audio' | 'text'\<close>; \<open>null\<close> is \<open>None\<close>.\<close>

datatype file_type = Image | Video | Audio | Text

text \<open>
  The interface \<open>FileData\<close>. An optional field is an \<open>option\<close>. The fields \<open>size\<close> and
  \<open>type\<close> are \<open>size'\<close> and \<open>type'\<close> here.
\<close>

record FileData =
  key :: string
  name :: string
  fileName :: "string option"
  url :: string
  size' :: "nat option"
  fileSize :: "nat option"
  type' :: "string option"
  fileType :: "file_type option"

section \<open>Classification: \<open>getFileType\<close>\<close>

definition image_extensions :: "string list" where
  "image_extensions = [''jpg'', ''jpeg'', ''png'', ''gif'', ''webp'', ''svg'', ''bmp'']"

definition video_extensions :: "string list" where
  "video_extensions = [''mp4'', ''avi'', ''mov'', ''wmv'', ''flv'', ''webm'', ''mkv'']"

definition audio_extensions :: "string list" where
  "audio_extensions = [''mp3'', ''wav'', ''ogg'', ''flac'', ''aac'', ''m4a'']"

definition text_extensions :: "string list" where
  "text_extensions = [''txt'', ''md'', ''rtf'', ''log'']"

text \<open>\<open>file.name.split('.').pop()?.toLowerCase()\<close>\<close>

definition extension_of :: "FileData \<Rightarrow> string option" where
  "extension_of file = map_option toLowerCase (pop (split CHR ''.'' (name file)))"

text \<open>\<open>file.type?.toLowerCase()\<close>\<close>

definition mimeType_of :: "FileData \<Rightarrow> string option" where
  "mimeType_of file = map_option toLowerCase (type' file)"

text \<open>\<open>mimeType?.startsWith(p)\<close>: \<open>undefined\<close>, hence falsy, when there is no MIME type.\<close>

definition mime_startsWith :: "string option \<Rightarrow> string \<Rightarrow> bool" where
  "mime_startsWith mimeType p = (case mimeType of None \<Rightarrow> False | Some m \<Rightarrow> startsWith m p)"

definition getFileType :: "FileData \<Rightarrow> file_type option" where
  "getFileType file =
     (let extension = extension_of file;
          mimeType = mimeType_of file
      in if mime_startsWith mimeType ''image/'' \<or> includes' image_extensions (or_empty extension)
         then Some Image
         else if mime_startsWith mimeType ''video/'' \<or> includes' video_extensions (or_empty extension)
         then Some Video
         else if mime_startsWith mimeType ''audio/'' \<or> includes' audio_extensions (or_empty extension)
         then Some Audio
         else if mime_startsWith mimeType ''text/'' \<or> includes' text_extensions (or_empty extension)
         then Some Text
         else None)"

subsection \<open>The classification as the specification words it\<close>








section \<open>The viewer's state\<close>

text \<open>
  The filter: \<open>'all' | 'image' | 'video' | 'audio' | 'text' | 'participants'\<close>. The four
  values it shares with \<open>fileType\<close> are \<open>FType\<close> of that type.
\<close>

datatype filter_kind = FAll | FType file_type | FParticipants

text \<open>
  The text of the \<open>error\<close> state: a message, the text \<open>HTTP error! status: n\<close>, or the
  message of the engine's \<open>TypeError\<close>.
\<close>

datatype error_text = Message string | HttpErrorStatus nat | TypeErrorMessage

text \<open>
  The component's state variables that loading, filtering and deleting read or write.
  The text contents and the participants (\<open>textContent\<close>, \<open>participants\<close>,
  \<open>participantsLoading\<close>, \<open>participantsError\<close>) are left out: the code that fills them
  writes no other state variable. The state \<open>filter\<close> is \<open>filter'\<close> here.
\<close>

record ViewerState =
  files :: "FileData list"
  loading :: bool
  error :: "error_text option"
  selectedFile :: "FileData option"
  filter' :: filter_kind
  isDownloadingAll :: bool
  isDeletingAll :: bool
  showDeleteAllConfirm :: bool
  fileToDelete :: "FileData option"
  showDeleteSuccess :: bool
  deletedCountInfo :: nat

definition initial_state :: ViewerState where
  "initial_state =
     \<lparr>files = [], loading = True, error = None, selectedFile = None, filter' = FAll,
      isDownloadingAll = False, isDeletingAll = False, showDeleteAllConfirm = False,
      fileToDelete = None, showDeleteSuccess = False, deletedCountInfo = 0\<rparr>"

text \<open>
  What the component does besides updating its state: a \<open>DELETE\<close> request for a key, a
  blocking \<open>alert\<close>, a \<open>setTimeout\<close> with its callback and delay in milliseconds, and an
  awaited pause.
\<close>

datatype callback = HideDeleteSuccess

datatype effect = DeleteRequest string | Alert string | SetTimeout callback nat | Pause nat

text \<open>\<open>() => setShowDeleteSuccess(false)\<close>\<close>

fun run_callback :: "callback \<Rightarrow> ViewerState \<Rightarrow> ViewerState" where
  "run_callback HideDeleteSuccess s = s\<lparr>showDeleteSuccess := False\<rparr>"

section \<open>Loading: \<open>loadFiles\<close>\<close>

text \<open>
  An element of \<open>data.files\<close>, which the viewer reads untyped: an object that conforms to
  \<open>FileData\<close>, or one whose \<open>name\<close> is not a string, on which \<open>file.name.split\<close> throws a
  \<open>TypeError\<close>.
\<close>

datatype wire_file = Conforming FileData | Nameless

text \<open>
  What \<open>fetch('/api/uploadthing')\<close> and \<open>response.json()\<close> give: one of them throws; or
  \<open>response.ok\<close> is false, with the status; or the parsed body with its \<open>success\<close>,
  \<open>files\<close> and \<open>error\<close>.
\<close>

datatype list_reply =
    FetchThrows thrown
  | HttpNotOk nat
  | Data bool "wire_file list" "string option"

definition unnamed_file :: string where
  "unnamed_file = capital_dotted_I @ ''simsiz dosya''"

definition msg_not_loaded :: string where
  "msg_not_loaded = ''Dosyalar y'' @ u_diaeresis @ ''klenemedi''"

text \<open>\<open>file.size || file.fileSize || 0\<close>: a missing number and \<open>0\<close> are falsy.\<close>

definition size_or_zero :: "nat option \<Rightarrow> nat option \<Rightarrow> nat" where
  "size_or_zero sz fsz =
     (case sz of
        Some n \<Rightarrow> if n \<noteq> 0 then n else (case fsz of Some m \<Rightarrow> m | None \<Rightarrow> 0)
      | None \<Rightarrow> (case fsz of Some m \<Rightarrow> m | None \<Rightarrow> 0))"

text \<open>\<open>file.name || file.fileName || '...'\<close>: a missing string and \<open>''\<close> are falsy.\<close>

definition name_or_default :: "string \<Rightarrow> string option \<Rightarrow> string" where
  "name_or_default n fn =
     (if n \<noteq> [] then n
      else (case fn of Some m \<Rightarrow> if m \<noteq> [] then m else unnamed_file | None \<Rightarrow> unnamed_file))"

text \<open>
  The callback of \<open>data.files.map\<close> on a conforming record: the spread, then the three
  fields computed from the record as received.
\<close>

definition enrich :: "FileData \<Rightarrow> FileData" where
  "enrich file =
     file\<lparr>fileType := getFileType file,
          size' := Some (size_or_zero (size' file) (fileSize file)),
          name := name_or_default (name file) (fileName file)\<rparr>"

text \<open>\<open>data.files.map(...)\<close>: \<open>None\<close> when the callback throws on an element.\<close>

fun map_files :: "wire_file list \<Rightarrow> FileData list option" where
  "map_files [] = Some []"
| "map_files (Nameless # rest) = None"
| "map_files (Conforming file # rest) =
     (case map_files rest of None \<Rightarrow> None | Some mapped \<Rightarrow> Some (enrich file # mapped))"

text \<open>
  \<open>loadFiles\<close>, up to the state variables of \<open>ViewerState\<close>: the \<open>try\<close> block, its
  \<open>catch\<close>, which sets \<open>error\<close>, and its \<open>finally\<close>.
\<close>

definition loadFiles :: "list_reply \<Rightarrow> ViewerState \<Rightarrow> ViewerState" where
  "loadFiles reply s =
     (let s1 = s\<lparr>loading := True\<rparr>;
          s2 = (case reply of
                  FetchThrows e \<Rightarrow> s1\<lparr>error := Some (Message (errorMessage e))\<rparr>
                | HttpNotOk st \<Rightarrow> s1\<lparr>error := Some (HttpErrorStatus st)\<rparr>
                | Data ok fs err \<Rightarrow>
                    if ok then
                      (case map_files fs of
                         None \<Rightarrow> s1\<lparr>error := Some TypeErrorMessage\<rparr>
                       | Some mapped \<Rightarrow>
                           (let supportedFiles = filter (\<lambda>file. fileType file \<noteq> None) mapped
                            in s1\<lparr>files := supportedFiles\<rparr>))
                    else
                      s1\<lparr>error := Some (Message (if or_empty err \<noteq> [] then or_empty err
                                                   else msg_not_loaded))\<rparr>)
      in s2\<lparr>loading := False\<rparr>)"

section \<open>Filter and counts\<close>

text \<open>\<open>file.fileType === filter\<close>\<close>

fun fileType_is :: "file_type option \<Rightarrow> filter_kind \<Rightarrow> bool" where
  "fileType_is (Some t) (FType u) = (t = u)"
| "fileType_is t f = False"

definition filteredFiles :: "ViewerState \<Rightarrow> FileData list" where
  "filteredFiles s =
     (if filter' s = FParticipants then []
      else filter (\<lambda>file. if filter' s = FAll then True else fileType_is (fileType file) (filter' s))
             (files s))"

text \<open>The object \<open>fileCounts\<close> (its keys primed).\<close>

record FileCounts =
  all' :: nat
  image' :: nat
  video' :: nat
  audio' :: nat
  text' :: nat

definition fileCounts :: "ViewerState \<Rightarrow> FileCounts" where
  "fileCounts s =
     \<lparr>all' = length (files s),
      image' = length (filter (\<lambda>f. fileType f = Some Image) (files s)),
      video' = length (filter (\<lambda>f. fileType f = Some Video) (files s)),
      audio' = length (filter (\<lambda>f. fileType f = Some Audio) (files s)),
      text' = length (filter (\<lambda>f. fileType f = Some Text) (files s))\<rparr>"

section \<open>Deleting\<close>

text \<open>
  What the \<open>DELETE\<close> request and \<open>response.json()\<close> give \<open>deleteFile\<close>: one of them
  throws, or the parsed body, read for its \<open>success\<close>.
\<close>

datatype delete_reply = DeleteThrows | DeleteResult bool

text \<open>\<open>deleteFile\<close>; \<open>request\<close> stands for the network, from the key to the reply.\<close>

definition deleteFile :: "(string \<Rightarrow> delete_reply) \<Rightarrow> string \<Rightarrow> bool" where
  "deleteFile request fileKey =
     (case request fileKey of DeleteThrows \<Rightarrow> False | DeleteResult ok \<Rightarrow> ok)"

definition msg_alert :: string where
  "msg_alert = ''Dosya silinirken bir hata olu'' @ s_cedilla @ ''tu.''"

text \<open>\<open>selectedFile?.key === file.key\<close>\<close>

definition selected_is :: "FileData option \<Rightarrow> FileData \<Rightarrow> bool" where
  "selected_is sel file = (case sel of None \<Rightarrow> False | Some f \<Rightarrow> key f = key file)"

text \<open>\<open>handleDeleteFile\<close>: the new state and what was done, in order.\<close>

definition handleDeleteFile ::
  "(string \<Rightarrow> delete_reply) \<Rightarrow> ViewerState \<Rightarrow> FileData \<Rightarrow> ViewerState \<times> effect list"
where
  "handleDeleteFile request s file =
     (let ok = deleteFile request (key file)
      in if ok then
           (let s1 = s\<lparr>files := filter (\<lambda>f. key f \<noteq> key file) (files s)\<rparr>;
                s2 = s1\<lparr>fileToDelete := None\<rparr>;
                s3 = (if selected_is (selectedFile s) file then s2\<lparr>selectedFile := None\<rparr> else s2);
                s4 = s3\<lparr>deletedCountInfo := 1\<rparr>;
                s5 = s4\<lparr>showDeleteSuccess := True\<rparr>
            in (s5, [DeleteRequest (key file), SetTimeout HideDeleteSuccess 4000]))
         else (s, [DeleteRequest (key file), Alert msg_alert]))"

text \<open>
  The loop of \<open>handleDeleteAllFiles\<close> from its \<open>i\<close>-th iteration on, over the files left
  to delete; \<open>request i\<close> is the network at the \<open>i\<close>-th request. It carries
  \<open>deletedCount\<close>, the state and what was done so far.
\<close>

fun delete_loop ::
  "(nat \<Rightarrow> string \<Rightarrow> delete_reply) \<Rightarrow> nat \<Rightarrow> FileData list
     \<Rightarrow> nat \<times> ViewerState \<times> effect list \<Rightarrow> nat \<times> ViewerState \<times> effect list"
where
  "delete_loop request i [] acc = acc"
| "delete_loop request i (file # rest) (deletedCount, s, trace) =
     (let ok = deleteFile (request i) (key file);
          deletedCount' = (if ok then deletedCount + 1 else deletedCount);
          s' = (if ok then s\<lparr>files := filter (\<lambda>f. key f \<noteq> key file) (files s)\<rparr> else s)
      in delete_loop request (i + 1) rest
           (deletedCount', s', trace @ [DeleteRequest (key file), Pause 100]))"

definition handleDeleteAllFiles ::
  "(nat \<Rightarrow> string \<Rightarrow> delete_reply) \<Rightarrow> ViewerState \<Rightarrow> FileData list
     \<Rightarrow> ViewerState \<times> effect list"
where
  "handleDeleteAllFiles request s filesToDelete =
     (if length filesToDelete = 0 then (s, [])
      else
        (let s1 = s\<lparr>isDeletingAll := True\<rparr>;
             (deletedCount, s2, trace) = delete_loop request 0 filesToDelete (0, s1, []);
             s3 = s2\<lparr>deletedCountInfo := deletedCount\<rparr>;
             s4 = s3\<lparr>showDeleteSuccess := True\<rparr>;
             s5 = s4\<lparr>showDeleteAllConfirm := False\<rparr>
         in (s5\<lparr>isDeletingAll := False\<rparr>, trace @ [SetTimeout HideDeleteSuccess 4000])))"

text \<open>
  The variables of the loop, \<open>deletedCount\<close>, the state and what was done, after the
  first \<open>k\<close> iterations of \<open>handleDeleteAllFiles\<close> called in the state \<open>s\<close>.
\<close>

definition after_iterations ::
  "(nat \<Rightarrow> string \<Rightarrow> delete_reply) \<Rightarrow> ViewerState \<Rightarrow> FileData list \<Rightarrow> nat
     \<Rightarrow> nat \<times> ViewerState \<times> effect list"
where
  "after_iterations request s filesToDelete k =
     delete_loop request 0 (take k filesToDelete) (0, s\<lparr>isDeletingAll := True\<rparr>, [])"

text \<open>
  The files of a bulk delete whose request failed, and those whose request succeeded, in
  order; the \<open>i\<close>-th file goes with the \<open>i\<close>-th request.
\<close>

definition failed_from :: "(nat \<Rightarrow> string \<Rightarrow> delete_reply) \<Rightarrow> nat \<Rightarrow> FileData list \<Rightarrow> FileData list" where
  "failed_from request i fs =
     map snd (filter (\<lambda>(j, f). \<not> deleteFile (request j) (key f)) (enumerate i fs))"

definition succeeded_from :: "(nat \<Rightarrow> string \<Rightarrow> delete_reply) \<Rightarrow> nat \<Rightarrow> FileData list \<Rightarrow> FileData list" where
  "succeeded_from request i fs =
     map snd (filter (\<lambda>(j, f). deleteFile (request j) (key f)) (enumerate i fs))"

text \<open>The keys of the \<open>DELETE\<close> requests among what was done.\<close>

fun requested_keys :: "effect list \<Rightarrow> string list" where
  "requested_keys [] = []"
| "requested_keys (DeleteRequest k # es) = k # requested_keys es"
| "requested_keys (e # es) = requested_keys es"

section \<open>The states the viewer can reach\<close>

text \<open>
  From the initial state: a load, a single delete of any record, a bulk delete of any
  list of records, the setters the controls call, and a timer callback.
\<close>

inductive reachable :: "ViewerState \<Rightarrow> bool" where
  init: "reachable initial_state"
| load: "reachable s \<Longrightarrow> reachable (loadFiles reply s)"
| delete_one: "reachable s \<Longrightarrow> reachable (fst (handleDeleteFile request s file))"
| delete_all: "reachable s \<Longrightarrow> reachable (fst (handleDeleteAllFiles requests s filesToDelete))"
| setFilter: "reachable s \<Longrightarrow> reachable (s\<lparr>filter' := flt\<rparr>)"
| setSelectedFile: "reachable s \<Longrightarrow> reachable (s\<lparr>selectedFile := sel\<rparr>)"
| setFileToDelete: "reachable s \<Longrightarrow> reachable (s\<lparr>fileToDelete := ftd\<rparr>)"
| setShowDeleteAllConfirm: "reachable s \<Longrightarrow> reachable (s\<lparr>showDeleteAllConfirm := b\<rparr>)"
| timer: "reachable s \<Longrightarrow> reachable (run_callback cb s)"

section \<open>The viewer over the facade\<close>

text \<open>
  A record of the facade's list as the viewer receives it, and the facade's response as
  \<open>fetch\<close> hands it to \<open>loadFiles\<close> when the transport delivers it unchanged
  (\<open>response.ok\<close> is a status from 200 to 299).
\<close>

definition received :: "FormattedFile \<Rightarrow> wire_file" where
  "received f =
     Conforming
       \<lparr>key = FormattedFile.key f, name = FormattedFile.name f, fileName = None,
        url = FormattedFile.url f, size' = Some (FormattedFile.size' f), fileSize = None,
        type' = Some (FormattedFile.type' f), fileType = None\<rparr>"

definition delivered :: "api_response \<Rightarrow> list_reply" where
  "delivered r =
     (if 200 \<le> status r \<and> status r \<le> 299
      then Data (success r)
             (case api_response.files r of None \<Rightarrow> [] | Some fs \<Rightarrow> map received fs)
             (api_response.error r)
      else HttpNotOk (status r))"

section \<open>Concrete inputs\<close>

text \<open>A clock that always reads the same instant.\<close>

definition fixed_clock :: "nat \<Rightarrow> string" where
  "fixed_clock i = ''2024-01-01T00:00:00.000Z''"

text \<open>A provider that deletes every key, and one that refuses every key.\<close>

definition provider_accepts :: "string list \<Rightarrow> DeleteFilesResponse outcome" where
  "provider_accepts keys = Returns \<lparr>DeleteFilesResponse.success = True\<rparr>"

definition provider_rejects :: "string list \<Rightarrow> DeleteFilesResponse outcome" where
  "provider_rejects keys = Returns \<lparr>DeleteFilesResponse.success = False\<rparr>"

text \<open>The provider's list of the scenario: \<open>photo.jpg\<close>, \<open>song.mp3\<close> and \<open>clip.exe\<close>.\<close>

definition scenario_files :: "UploadedFile list" where
  "scenario_files =
     [\<lparr>UploadedFile.id' = ''1'', UploadedFile.key = ''a'', UploadedFile.name = ''photo.jpg'',
       UploadedFile.status = ''Uploaded'', UploadedFile.customId = None\<rparr>,
      \<lparr>UploadedFile.id' = ''2'', UploadedFile.key = ''b'', UploadedFile.name = ''song.mp3'',
       UploadedFile.status = ''Uploaded'', UploadedFile.customId = None\<rparr>,
      \<lparr>UploadedFile.id' = ''3'', UploadedFile.key = ''c'', UploadedFile.name = ''clip.exe'',
       UploadedFile.status = ''Uploaded'', UploadedFile.customId = None\<rparr>]"

definition scenario_listing :: "ListFilesResponse option outcome" where
  "scenario_listing =
     Returns (Some \<lparr>ListFilesResponse.files = Some (FileArray (map Some scenario_files))\<rparr>)"

text \<open>
  The viewer after it has loaded the scenario's list from the facade, and the two records
  it keeps.
\<close>

definition scenario_state :: ViewerState where
  "scenario_state = loadFiles (delivered (fst (GET fixed_clock scenario_listing))) initial_state"

definition photo :: FileData where
  "photo =
     \<lparr>key = ''a'', name = ''photo.jpg'', fileName = None, url = ''https://utfs.io/f/a'',
      size' = Some 0, fileSize = None, type' = Some ''unknown'', fileType = Some Image\<rparr>"

definition song :: FileData where
  "song =
     \<lparr>key = ''b'', name = ''song.mp3'', fileName = None, url = ''https://utfs.io/f/b'',
      size' = Some 0, fileSize = None, type' = Some ''unknown'', fileType = Some Audio\<rparr>"

text \<open>
  A network on which every \<open>DELETE\<close> request succeeds, one on which every request is
  refused, and one on which the second request of a run is refused.
\<close>

definition request_accepted :: "string \<Rightarrow> delete_reply" where
  "request_accepted k = DeleteResult True"

definition request_refused :: "string \<Rightarrow> delete_reply" where
  "request_refused k = DeleteResult False"

definition all_accepted :: "nat \<Rightarrow> string \<Rightarrow> delete_reply" where
  "all_accepted i k = DeleteResult True"

definition second_refused :: "nat \<Rightarrow> string \<Rightarrow> delete_reply" where
  "second_refused i k = DeleteResult (i \<noteq> 1)"

text \<open>The scenario's three records as the viewer receives them; \<open>clip.exe\<close> is the third.\<close>

definition clip :: FileData where
  "clip =
     \<lparr>key = ''c'', name = ''clip.exe'', fileName = None, url = ''https://utfs.io/f/c'',
      size' = Some 0, fileSize = None, type' = Some ''unknown'', fileType = None\<rparr>"

definition scenario_records :: "FileData list" where
  "scenario_records = [photo\<lparr>fileType := None\<rparr>, song\<lparr>fileType := None\<rparr>, clip]"





section \<open>Properties of the classification\<close>

lemma split_not_Nil: "split c s \<noteq> []"
  by (induction s) (auto split: list.splits)

lemma extension_of_defined: "\<exists>e. extension_of file = Some e"
  by (simp add: extension_of_def pop_def split_not_Nil)


lemma fileType_enrich: "fileType (enrich r) = getFileType r"
  by (simp add: enrich_def)

lemma toLowerCase_letters: "toLowerCase upper_letters = lower_letters"
  by (simp add: toLowerCase_def toLowerCase_char_def upper_letters_def lower_letters_def)

lemma toLowerCase_other: "c \<notin> set upper_letters \<Longrightarrow> toLowerCase_char c = c"
  by (simp add: toLowerCase_char_def upper_letters_def lower_letters_def)









text \<open>
  The order of the types comes before the choice between MIME type and extension: a
  record named \<open>x.jpg\<close> with the MIME type \<open>video/mp4\<close> is an image.
\<close>

lemma type_order_comes_first:
  "getFileType
     \<lparr>key = ''k'', name = ''x.jpg'', fileName = None, url = ''u'', size' = None,
      fileSize = None, type' = Some ''video/mp4'', fileType = None\<rparr> = Some Image"
  by (simp add: getFileType_def extension_of_def mimeType_of_def mime_startsWith_def
      startsWith_def includes'_def or_empty_def pop_def toLowerCase_def toLowerCase_char_def
      upper_letters_def lower_letters_def image_extensions_def)

section \<open>Properties of the facade\<close>

lemma format_files_all_present:
  "format_files clock i (map Some fs)
     = Inr (map (\<lambda>(j, f). formatFile (clock j) f) (enumerate i fs))"
  by (induction fs arbitrary: i) simp_all

lemma format_files_null_element:
  "None \<in> set elements \<Longrightarrow> format_files clock i elements = Inl null_element_error"
proof (induction elements arbitrary: i)
  case Nil
  then show ?case by simp
next
  case (Cons x rest)
  show ?case
  proof (cases x)
    case None
    then show ?thesis by simp
  next
    case (Some f)
    then have "None \<in> set rest" using Cons.prems by auto
    then show ?thesis using Some Cons.IH [of "Suc i"] by simp
  qed
qed

text \<open>
  Claim C3, as the code has it. When the provider's answer to \<open>listFiles\<close> is absent, or
  has no \<open>files\<close> field, \<open>GET\<close> returns the success response with status 200,
  \<open>success = true\<close>, \<open>files = []\<close> and \<open>total = 0\<close>, and no error. When the answer's
  \<open>files\<close> field is malformed, a value that is no array or an array with a \<open>null\<close>
  element, the handler throws and \<open>GET\<close> returns the error response with status 500,
  \<open>success = false\<close>, \<open>files = []\<close> and \<open>total = 0\<close>.
\<close>

theorem list_empty_success_or_malformed_failure:
  "((listFiles = Returns None
       \<or> (\<exists>r. listFiles = Returns (Some r) \<and> ListFilesResponse.files r = None)) \<longrightarrow>
      GET clock listFiles =
        (\<lparr>status = 200, success = True, files = Some [], total = Some 0, message = None,
          deletedKey = None, updatedKey = None, updatedData = None, error = None,
          details = None\<rparr>,
         [ListFiles]))
   \<and> (\<forall>r. listFiles = Returns (Some r) \<and> ListFilesResponse.files r = Some NotAnArray \<longrightarrow>
         GET clock listFiles =
           (\<lparr>status = 500, success = False, files = Some [], total = Some 0, message = None,
             deletedKey = None, updatedKey = None, updatedData = None,
             error = Some msg_list_failed,
             details = Some ''response.files.map is not a function''\<rparr>,
            [ListFiles]))
   \<and> (\<forall>r elements. listFiles = Returns (Some r)
          \<and> ListFilesResponse.files r = Some (FileArray elements) \<and> None \<in> set elements \<longrightarrow>
         GET clock listFiles =
           (\<lparr>status = 500, success = False, files = Some [], total = Some 0, message = None,
             deletedKey = None, updatedKey = None, updatedData = None,
             error = Some msg_list_failed,
             details = Some (errorMessage null_element_error)\<rparr>,
            [ListFiles]))"
proof (intro conjI impI allI)
  assume "listFiles = Returns None
            \<or> (\<exists>r. listFiles = Returns (Some r) \<and> ListFilesResponse.files r = None)"
  then show "GET clock listFiles =
        (\<lparr>status = 200, success = True, files = Some [], total = Some 0, message = None,
          deletedKey = None, updatedKey = None, updatedData = None, error = None,
          details = None\<rparr>,
         [ListFiles])"
    by (auto simp: GET_def empty_list_response_def json_def)
next
  fix r
  assume "listFiles = Returns (Some r) \<and> ListFilesResponse.files r = Some NotAnArray"
  then show "GET clock listFiles =
           (\<lparr>status = 500, success = False, files = Some [], total = Some 0, message = None,
             deletedKey = None, updatedKey = None, updatedData = None,
             error = Some msg_list_failed,
             details = Some ''response.files.map is not a function''\<rparr>,
            [ListFiles])"
    by (simp add: GET_def list_failure_def json_def not_a_function_error_def errorMessage_def)
next
  fix r elements
  assume "listFiles = Returns (Some r)
            \<and> ListFilesResponse.files r = Some (FileArray elements) \<and> None \<in> set elements"
  then show "GET clock listFiles =
           (\<lparr>status = 500, success = False, files = Some [], total = Some 0, message = None,
             deletedKey = None, updatedKey = None, updatedData = None,
             error = Some msg_list_failed,
             details = Some (errorMessage null_element_error)\<rparr>,
            [ListFiles])"
    by (simp add: GET_def list_failure_def json_def format_files_null_element)
qed

theorem list_empty_success_witness:
  "GET fixed_clock (Returns None) =
     (\<lparr>status = 200, success = True, files = Some [], total = Some 0, message = None,
       deletedKey = None, updatedKey = None, updatedData = None, error = None,
       details = None\<rparr>,
      [ListFiles])
   \<and> GET fixed_clock (Returns (Some \<lparr>ListFilesResponse.files = None\<rparr>)) =
     (\<lparr>status = 200, success = True, files = Some [], total = Some 0, message = None,
       deletedKey = None, updatedKey = None, updatedData = None, error = None,
       details = None\<rparr>,
      [ListFiles])
   \<and> GET fixed_clock (Returns (Some \<lparr>ListFilesResponse.files = Some NotAnArray\<rparr>)) =
     (\<lparr>status = 500, success = False, files = Some [], total = Some 0, message = None,
       deletedKey = None, updatedKey = None, updatedData = None,
       error = Some msg_list_failed,
       details = Some ''response.files.map is not a function''\<rparr>,
      [ListFiles])
   \<and> GET fixed_clock
        (Returns (Some \<lparr>ListFilesResponse.files = Some (FileArray (map Some scenario_files @ [None]))\<rparr>)) =
     (\<lparr>status = 500, success = False, files = Some [], total = Some 0, message = None,
       deletedKey = None, updatedKey = None, updatedData = None,
       error = Some msg_list_failed,
       details = Some (errorMessage null_element_error)\<rparr>,
      [ListFiles])"
  using list_empty_success_or_malformed_failure [of "Returns None" fixed_clock]
    list_empty_success_or_malformed_failure
      [of "Returns (Some \<lparr>ListFilesResponse.files = None\<rparr>)" fixed_clock]
    list_empty_success_or_malformed_failure
      [of "Returns (Some \<lparr>ListFilesResponse.files = Some NotAnArray\<rparr>)" fixed_clock]
    list_empty_success_or_malformed_failure
      [of "Returns (Some \<lparr>ListFilesResponse.files = Some (FileArray (map Some scenario_files @ [None]))\<rparr>)"
          fixed_clock]
  by simp

text \<open>
  The claim as stated, that a malformed answer gets the empty success and never an
  error, fails: an answer whose \<open>files\<close> is no array, and one whose \<open>files\<close> is an array
  holding \<open>null\<close>, each get status 500 with \<open>success = false\<close>.
\<close>

theorem list_malformed_answer_is_an_error:
  "status (fst (GET fixed_clock (Returns (Some \<lparr>ListFilesResponse.files = Some NotAnArray\<rparr>)))) = 500
   \<and> \<not> success (fst (GET fixed_clock (Returns (Some \<lparr>ListFilesResponse.files = Some NotAnArray\<rparr>))))
   \<and> status (fst (GET fixed_clock (Returns (Some \<lparr>ListFilesResponse.files = Some (FileArray [None])\<rparr>)))) = 500
   \<and> \<not> success (fst (GET fixed_clock (Returns (Some \<lparr>ListFilesResponse.files = Some (FileArray [None])\<rparr>))))"
  by (simp add: GET_def list_failure_def json_def)

text \<open>
  Claim C4. When the \<open>key\<close> parameter of a delete request is absent or the empty string,
  \<open>DELETE\<close> returns status 400 with \<open>success = false\<close> and the validation message, and
  makes no call on the provider, whatever the provider would do.
\<close>

theorem delete_without_key_is_rejected:
  assumes "key_param = None \<or> key_param = Some []"
  shows "DELETE deleteFiles key_param =
           (\<lparr>status = 400, success = False, files = None, total = None, message = None,
             deletedKey = None, updatedKey = None, updatedData = None,
             error = Some msg_key_required, details = None\<rparr>,
            [])"
  using assms by (auto simp: DELETE_def json_def)

theorem delete_without_key_witness:
  "DELETE provider_accepts None =
     (\<lparr>status = 400, success = False, files = None, total = None, message = None,
       deletedKey = None, updatedKey = None, updatedData = None,
       error = Some msg_key_required, details = None\<rparr>,
      [])
   \<and> DELETE provider_accepts (Some []) =
     (\<lparr>status = 400, success = False, files = None, total = None, message = None,
       deletedKey = None, updatedKey = None, updatedData = None,
       error = Some msg_key_required, details = None\<rparr>,
      [])"
  using delete_without_key_is_rejected [of None provider_accepts]
    delete_without_key_is_rejected [of "Some []" provider_accepts]
  by simp

text \<open>
  Claim C5. For a delete request with a non-empty key, \<open>DELETE\<close> calls the provider's
  \<open>deleteFiles\<close> exactly once, with that key alone. If the provider reports success, the
  response is status 200 with \<open>success = true\<close> and the deleted key; if it reports
  failure, the response is status 400 with \<open>success = false\<close>.
\<close>

theorem delete_with_key_calls_provider_once:
  assumes "fileKey \<noteq> []"
  shows "snd (DELETE deleteFiles (Some fileKey)) = [DeleteFiles [fileKey]]
         \<and> (\<forall>r. deleteFiles [fileKey] = Returns r \<and> DeleteFilesResponse.success r \<longrightarrow>
               fst (DELETE deleteFiles (Some fileKey)) =
                 \<lparr>status = 200, success = True, files = None, total = None,
                  message = Some msg_deleted, deletedKey = Some fileKey, updatedKey = None,
                  updatedData = None, error = None, details = None\<rparr>)
         \<and> (\<forall>r. deleteFiles [fileKey] = Returns r \<and> \<not> DeleteFilesResponse.success r \<longrightarrow>
               fst (DELETE deleteFiles (Some fileKey)) =
                 \<lparr>status = 400, success = False, files = None, total = None,
                  message = None, deletedKey = None, updatedKey = None,
                  updatedData = None, error = Some msg_not_deleted, details = None\<rparr>)"
  using assms by (auto simp: DELETE_def json_def split: outcome.splits)

theorem delete_with_key_witness:
  "DELETE provider_accepts (Some ''abc'') =
     (\<lparr>status = 200, success = True, files = None, total = None,
       message = Some msg_deleted, deletedKey = Some ''abc'', updatedKey = None,
       updatedData = None, error = None, details = None\<rparr>,
      [DeleteFiles [''abc'']])
   \<and> DELETE provider_rejects (Some ''abc'') =
     (\<lparr>status = 400, success = False, files = None, total = None,
       message = None, deletedKey = None, updatedKey = None,
       updatedData = None, error = Some msg_not_deleted, details = None\<rparr>,
      [DeleteFiles [''abc'']])"
proof -
  have k: "''abc'' \<noteq> []" by simp
  show ?thesis
    using delete_with_key_calls_provider_once [OF k, of provider_accepts]
      delete_with_key_calls_provider_once [OF k, of provider_rejects]
    by (simp add: provider_accepts_def provider_rejects_def prod_eq_iff)
qed

text \<open>
  Claim C8. When the provider answers \<open>listFiles\<close> with an array of file objects, \<open>GET\<close> returns
  one record for each, in order, with the provider's key; the record's \<open>url\<close> is
  \<open>https://utfs.io/f/\<close> followed by the key, its \<open>uploadedAt\<close> is the clock's reading
  when the record is formatted, its \<open>type\<close> is \<open>unknown\<close> and its \<open>size\<close> is 0; the
  response is a success with status 200 and the number of records as \<open>total\<close>.
\<close>

theorem list_records_have_url_and_defaults:
  assumes "listFiles = Returns (Some r)"
    and "ListFilesResponse.files r = Some (FileArray (map Some fs))"
  shows "\<exists>out. GET clock listFiles =
           (\<lparr>status = 200, success = True, files = Some out, total = Some (length fs),
             message = None, deletedKey = None, updatedKey = None, updatedData = None,
             error = None, details = None\<rparr>,
            [ListFiles])
         \<and> map FormattedFile.key out = map UploadedFile.key fs
         \<and> map FormattedFile.url out = map (\<lambda>f. ''https://utfs.io/f/'' @ UploadedFile.key f) fs
         \<and> map uploadedAt out = map clock [0..<length fs]
         \<and> map FormattedFile.type' out = replicate (length fs) ''unknown''
         \<and> map FormattedFile.size' out = replicate (length fs) 0"
proof -
  let ?out = "map (\<lambda>(i, file). formatFile (clock i) file) (enumerate 0 fs)"
  have g: "GET clock listFiles =
           (\<lparr>status = 200, success = True, files = Some ?out, total = Some (length fs),
             message = None, deletedKey = None, updatedKey = None, updatedData = None,
             error = None, details = None\<rparr>,
            [ListFiles])"
    using assms by (simp add: GET_def json_def format_files_all_present)
  have shape: "?out = map (\<lambda>i. formatFile (clock i) (fs ! i)) [0..<length fs]"
    by (rule nth_equalityI) (simp_all add: nth_enumerate_eq)
  have k: "map FormattedFile.key ?out = map UploadedFile.key fs"
    unfolding shape by (rule nth_equalityI) (simp_all add: formatFile_def)
  have u: "map FormattedFile.url ?out = map (\<lambda>f. ''https://utfs.io/f/'' @ UploadedFile.key f) fs"
    unfolding shape by (rule nth_equalityI) (simp_all add: formatFile_def)
  have t: "map uploadedAt ?out = map clock [0..<length fs]"
    unfolding shape by (rule nth_equalityI) (simp_all add: formatFile_def)
  have ty: "map FormattedFile.type' ?out = replicate (length fs) ''unknown''"
    unfolding shape by (rule nth_equalityI) (simp_all add: formatFile_def)
  have sz: "map FormattedFile.size' ?out = replicate (length fs) 0"
    unfolding shape by (rule nth_equalityI) (simp_all add: formatFile_def)
  from g k u t ty sz show ?thesis by blast
qed

theorem list_records_witness:
  "\<exists>out. GET fixed_clock scenario_listing =
           (\<lparr>status = 200, success = True, files = Some out, total = Some 3,
             message = None, deletedKey = None, updatedKey = None, updatedData = None,
             error = None, details = None\<rparr>,
            [ListFiles])
         \<and> map FormattedFile.key out = [''a'', ''b'', ''c'']
         \<and> map FormattedFile.url out =
             [''https://utfs.io/f/a'', ''https://utfs.io/f/b'', ''https://utfs.io/f/c'']
         \<and> map uploadedAt out = [fixed_clock 0, fixed_clock 1, fixed_clock 2]
         \<and> map FormattedFile.type' out = [''unknown'', ''unknown'', ''unknown'']
         \<and> map FormattedFile.size' out = [0, 0, 0]"
proof -
  have three: "[0..<3] = [0, 1, 2]" by (simp add: upt_rec)
  show ?thesis
    using list_records_have_url_and_defaults
      [of scenario_listing
          "\<lparr>ListFilesResponse.files = Some (FileArray (map Some scenario_files))\<rparr>"
          scenario_files fixed_clock]
    by (simp add: scenario_listing_def scenario_files_def three numeral_3_eq_3 fixed_clock_def)
qed

text \<open>
  Claim C9, as the code has it. \<open>PATCH\<close> never calls the provider. For a request whose
  body parses and whose key is non-empty it returns status 200 with \<open>success = true\<close>, the
  key as \<open>updatedKey\<close> and the body as \<open>updatedData\<close>. For a request whose body parses
  and whose key is absent or empty it returns status 400 with \<open>success = false\<close>; for a
  request whose body does not parse it returns status 500 with \<open>success = false\<close>.
\<close>

theorem patch_is_a_guarded_stub:
  "snd (PATCH key_param body) = []
   \<and> (\<forall>b fileKey. body = Returns b \<and> key_param = Some fileKey \<and> fileKey \<noteq> [] \<longrightarrow>
         fst (PATCH key_param body) =
           \<lparr>status = 200, success = True, files = None, total = None,
            message = Some msg_updated, deletedKey = None, updatedKey = Some fileKey,
            updatedData = Some b, error = None, details = None\<rparr>)
   \<and> (\<forall>b. body = Returns b \<and> (key_param = None \<or> key_param = Some []) \<longrightarrow>
         fst (PATCH key_param body) =
           \<lparr>status = 400, success = False, files = None, total = None,
            message = None, deletedKey = None, updatedKey = None,
            updatedData = None, error = Some msg_key_required, details = None\<rparr>)
   \<and> (\<forall>e. body = Throws e \<longrightarrow>
         fst (PATCH key_param body) =
           \<lparr>status = 500, success = False, files = None, total = None,
            message = None, deletedKey = None, updatedKey = None,
            updatedData = None, error = Some msg_update_failed,
            details = Some (errorMessage e)\<rparr>)"
  by (cases body; cases key_param) (auto simp: PATCH_def json_def)

theorem patch_stub_witness:
  "PATCH (Some ''abc'') (Returns (JObject [(''name'', JString ''x'')])) =
     (\<lparr>status = 200, success = True, files = None, total = None,
       message = Some msg_updated, deletedKey = None, updatedKey = Some ''abc'',
       updatedData = Some (JObject [(''name'', JString ''x'')]), error = None,
       details = None\<rparr>, [])
   \<and> PATCH None (Returns (JObject [])) =
     (\<lparr>status = 400, success = False, files = None, total = None,
       message = None, deletedKey = None, updatedKey = None,
       updatedData = None, error = Some msg_key_required, details = None\<rparr>, [])
   \<and> PATCH (Some ''abc'') (Throws (ErrorObject ''Unexpected end of JSON input'')) =
     (\<lparr>status = 500, success = False, files = None, total = None,
       message = None, deletedKey = None, updatedKey = None,
       updatedData = None, error = Some msg_update_failed,
       details = Some ''Unexpected end of JSON input''\<rparr>, [])"
  using patch_is_a_guarded_stub [of "Some ''abc''" "Returns (JObject [(''name'', JString ''x'')])"]
    patch_is_a_guarded_stub [of None "Returns (JObject [])"]
    patch_is_a_guarded_stub [of "Some ''abc''" "Throws (ErrorObject ''Unexpected end of JSON input'')"]
  by (simp add: prod_eq_iff errorMessage_def)

text \<open>
  The claim as stated, that \<open>PATCH\<close> returns success for every request, fails: a request
  with no key gets status 400, and a request whose body does not parse gets status 500,
  both with \<open>success = false\<close>.
\<close>

theorem patch_not_always_success:
  "\<not> success (fst (PATCH None (Returns (JObject []))))
   \<and> status (fst (PATCH None (Returns (JObject [])))) = 400
   \<and> \<not> success (fst (PATCH (Some ''abc'') (Throws (ErrorObject ''Unexpected end of JSON input''))))
   \<and> status (fst (PATCH (Some ''abc'') (Throws (ErrorObject ''Unexpected end of JSON input'')))) = 500"
  by (simp add: PATCH_def json_def)

section \<open>Properties of the viewer\<close>

lemma scenario_state_eq:
  "scenario_state = initial_state\<lparr>files := [photo, song], loading := False\<rparr>"
  by (simp add: scenario_state_def loadFiles_def delivered_def GET_def scenario_listing_def scenario_files_def
      json_def received_def formatFile_def enrich_def getFileType_def extension_of_def mimeType_of_def
      mime_startsWith_def startsWith_def includes'_def or_empty_def pop_def toLowerCase_def toLowerCase_char_def
      upper_letters_def lower_letters_def image_extensions_def video_extensions_def audio_extensions_def text_extensions_def
      Let_def photo_def song_def size_or_zero_def name_or_default_def customId_or_null_def initial_state_def)

subsection \<open>The bulk delete loop\<close>

lemma delete_loop_result:
  "delete_loop request i fs (c, s, tr) =
     (c + length (succeeded_from request i fs),
      s\<lparr>files := filter (\<lambda>f. key f \<notin> key ` set (succeeded_from request i fs)) (files s)\<rparr>,
      tr @ concat (map (\<lambda>f. [DeleteRequest (key f), Pause 100]) fs))"
proof (induction fs arbitrary: i c s tr)
  case Nil
  then show ?case by (simp add: succeeded_from_def)
next
  case (Cons x rest)
  show ?case
  proof (cases "deleteFile (request i) (key x)")
    case True
    have "succeeded_from request i (x # rest) = x # succeeded_from request (Suc i) rest"
      using True by (simp add: succeeded_from_def)
    then show ?thesis
      using True by (simp add: Cons.IH Let_def)
  next
    case False
    have "succeeded_from request i (x # rest) = succeeded_from request (Suc i) rest"
      using False by (simp add: succeeded_from_def)
    then show ?thesis
      using False by (simp add: Cons.IH Let_def)
  qed
qed

lemma handleDeleteAllFiles_result:
  assumes "filesToDelete \<noteq> []"
  shows "handleDeleteAllFiles request s filesToDelete =
           (s\<lparr>files := filter (\<lambda>f. key f \<notin> key ` set (succeeded_from request 0 filesToDelete))
                         (files s),
              deletedCountInfo := length (succeeded_from request 0 filesToDelete),
              showDeleteSuccess := True, showDeleteAllConfirm := False, isDeletingAll := False\<rparr>,
            concat (map (\<lambda>f. [DeleteRequest (key f), Pause 100]) filesToDelete)
              @ [SetTimeout HideDeleteSuccess 4000])"
  using assms by (simp add: handleDeleteAllFiles_def delete_loop_result)

lemma requested_keys_append:
  "requested_keys (es @ es') = requested_keys es @ requested_keys es'"
  by (induction es rule: requested_keys.induct) simp_all

lemma requested_keys_loop:
  "requested_keys (concat (map (\<lambda>f. [DeleteRequest (key f), Pause 100]) fs)) = map key fs"
  by (induction fs) simp_all

lemma succeeded_failed_length:
  "length (succeeded_from request i fs) + length (failed_from request i fs) = length fs"
proof -
  have "length (filter (\<lambda>(j, f). deleteFile (request j) (key f)) (enumerate i fs))
        + length (filter (\<lambda>(j, f). \<not> deleteFile (request j) (key f)) (enumerate i fs))
        = length (enumerate i fs)"
    using sum_length_filter_compl [of "\<lambda>(j, f). deleteFile (request j) (key f)" "enumerate i fs"]
    by (simp add: case_prod_unfold)
  then show ?thesis by (simp add: succeeded_from_def failed_from_def)
qed

lemma succeeded_subset: "set (succeeded_from request i fs) \<subseteq> set fs"
  by (auto simp: succeeded_from_def in_set_enumerate_eq)

lemma failed_subset: "set (failed_from request i fs) \<subseteq> set fs"
  by (auto simp: failed_from_def in_set_enumerate_eq)

lemma succeeded_Cons:
  "succeeded_from request i (x # fs) =
     (if deleteFile (request i) (key x) then x # succeeded_from request (Suc i) fs
      else succeeded_from request (Suc i) fs)"
  by (simp add: succeeded_from_def)

lemma failed_Cons:
  "failed_from request i (x # fs) =
     (if deleteFile (request i) (key x) then failed_from request (Suc i) fs
      else x # failed_from request (Suc i) fs)"
  by (simp add: failed_from_def)

lemma succeeded_iff_not_failed:
  "distinct fs \<Longrightarrow> f \<in> set fs \<Longrightarrow>
     (f \<in> set (succeeded_from request i fs)) = (f \<notin> set (failed_from request i fs))"
proof (induction fs arbitrary: i)
  case Nil
  then show ?case by simp
next
  case (Cons x fs)
  have x1: "x \<notin> set (succeeded_from request (Suc i) fs)"
    using Cons.prems(1) succeeded_subset [of request "Suc i" fs] by auto
  have x2: "x \<notin> set (failed_from request (Suc i) fs)"
    using Cons.prems(1) failed_subset [of request "Suc i" fs] by auto
  show ?case
  proof (cases "f = x")
    case True
    then show ?thesis using x1 x2 by (simp add: succeeded_Cons failed_Cons)
  next
    case False
    then have "f \<in> set fs" using Cons.prems(2) by simp
    then show ?thesis
      using Cons.IH [of "Suc i"] Cons.prems(1) False by (simp add: succeeded_Cons failed_Cons)
  qed
qed

lemma failed_is_filter:
  "distinct fs \<Longrightarrow>
     filter (\<lambda>f. f \<in> set (failed_from request i fs)) fs = failed_from request i fs"
proof (induction fs arbitrary: i)
  case Nil
  then show ?case by (simp add: failed_from_def)
next
  case (Cons x fs)
  have x2: "x \<notin> set (failed_from request (Suc i) fs)"
    using Cons.prems failed_subset [of request "Suc i" fs] by auto
  have rest: "filter (\<lambda>f. f \<in> set (failed_from request (Suc i) fs)) fs
                = failed_from request (Suc i) fs"
    using Cons.IH [of "Suc i"] Cons.prems by simp
  have same: "filter (\<lambda>f. f = x \<or> f \<in> set (failed_from request (Suc i) fs)) fs
                = filter (\<lambda>f. f \<in> set (failed_from request (Suc i) fs)) fs"
    using Cons.prems by (intro filter_cong) auto
  show ?case
    using x2 rest same by (simp add: failed_Cons)
qed

lemma filteredFiles_subset: "set (filteredFiles s) \<subseteq> set (files s)"
  by (auto simp: filteredFiles_def)

lemma filteredFiles_distinct: "distinct (files s) \<Longrightarrow> distinct (filteredFiles s)"
  by (simp add: filteredFiles_def)

lemma filteredFiles_all: "filter' s = FAll \<Longrightarrow> filteredFiles s = files s"
  by (simp add: filteredFiles_def)

lemma bulk_delete_nonempty:
  assumes "distinct (map key (files s))"
    and "filesToDelete = filteredFiles s"
    and "filesToDelete \<noteq> []"
  shows "requested_keys (snd (handleDeleteAllFiles request s filesToDelete)) = map key filesToDelete
         \<and> showDeleteSuccess (fst (handleDeleteAllFiles request s filesToDelete))
         \<and> deletedCountInfo (fst (handleDeleteAllFiles request s filesToDelete))
             = length filesToDelete - length (failed_from request 0 filesToDelete)
         \<and> length (failed_from request 0 filesToDelete) \<le> length filesToDelete
         \<and> files (fst (handleDeleteAllFiles request s filesToDelete))
             = filter (\<lambda>f. f \<notin> set filesToDelete \<or> f \<in> set (failed_from request 0 filesToDelete))
                 (files s)
         \<and> (filter' s = FAll \<longrightarrow>
               files (fst (handleDeleteAllFiles request s filesToDelete))
                 = failed_from request 0 filesToDelete)"
proof -
  let ?R = "handleDeleteAllFiles request s filesToDelete"
  let ?succ = "succeeded_from request 0 filesToDelete"
  let ?fail = "failed_from request 0 filesToDelete"
  have inj: "inj_on key (set (files s))" and dist: "distinct (files s)"
    using assms(1) by (simp_all add: distinct_map)
  have sub: "set filesToDelete \<subseteq> set (files s)"
    using assms(2) filteredFiles_subset by simp
  have dfs: "distinct filesToDelete"
    using assms(2) dist filteredFiles_distinct by simp
  have calls: "requested_keys (snd ?R) = map key filesToDelete"
    using assms(3)
    by (simp add: handleDeleteAllFiles_result requested_keys_append requested_keys_loop)
  have shown: "showDeleteSuccess (fst ?R)"
    using assms(3) by (simp add: handleDeleteAllFiles_result)
  have count: "deletedCountInfo (fst ?R) = length filesToDelete - length ?fail"
    using assms(3) succeeded_failed_length [of request 0 filesToDelete]
    by (simp add: handleDeleteAllFiles_result)
  have keep: "(key f \<notin> key ` set ?succ) = (f \<notin> set filesToDelete \<or> f \<in> set ?fail)"
    if "f \<in> set (files s)" for f
  proof -
    have "(key f \<in> key ` set ?succ) = (f \<in> set ?succ)"
    proof
      assume "key f \<in> key ` set ?succ"
      then obtain g where g: "g \<in> set ?succ" "key g = key f" by auto
      then have "g \<in> set (files s)" using succeeded_subset [of request 0 filesToDelete] sub by auto
      then have "g = f" using inj that g(2) by (auto dest: inj_onD)
      then show "f \<in> set ?succ" using g(1) by simp
    qed auto
    moreover have "(f \<in> set ?succ) = (f \<in> set filesToDelete \<and> f \<notin> set ?fail)"
      using succeeded_iff_not_failed [OF dfs, of f request 0]
        succeeded_subset [of request 0 filesToDelete] by auto
    ultimately show ?thesis by simp
  qed
  have left: "files (fst ?R) = filter (\<lambda>f. f \<notin> set filesToDelete \<or> f \<in> set ?fail) (files s)"
    using assms(3) keep by (simp add: handleDeleteAllFiles_result cong: filter_cong)
  have all: "files (fst ?R) = ?fail" if "filter' s = FAll"
  proof -
    have eq: "filesToDelete = files s" using that assms(2) filteredFiles_all by simp
    have "filter (\<lambda>f. f \<notin> set filesToDelete \<or> f \<in> set ?fail) (files s)
            = filter (\<lambda>f. f \<in> set ?fail) filesToDelete"
      unfolding eq by (intro filter_cong) auto
    then show ?thesis using left failed_is_filter [OF dfs, of request 0] by simp
  qed
  have le: "length ?fail \<le> length filesToDelete"
    using succeeded_failed_length [of request 0 filesToDelete] by simp
  from calls shown count le left all show ?thesis by blast
qed

lemma delete_loop_append:
  "delete_loop request i (xs @ ys) acc
     = delete_loop request (i + length xs) ys (delete_loop request i xs acc)"
proof (induction xs arbitrary: i acc)
  case Nil
  then show ?case by simp
next
  case (Cons x xs)
  obtain c s tr where acc: "acc = (c, s, tr)" by (cases acc) auto
  show ?case unfolding acc by (simp add: Let_def Cons.IH)
qed

lemma succeeded_keys_filter:
  assumes "inj_on key (set xs)" and "set ys \<subseteq> set xs"
  shows "filter (\<lambda>f. key f \<notin> key ` set ys) xs = filter (\<lambda>f. f \<notin> set ys) xs"
proof (rule filter_cong [OF refl])
  fix f assume f: "f \<in> set xs"
  have "(key f \<in> key ` set ys) = (f \<in> set ys)"
  proof
    assume "key f \<in> key ` set ys"
    then obtain g where g: "g \<in> set ys" "key g = key f" by auto
    then have "g = f" using assms f by (auto dest: inj_onD)
    then show "f \<in> set ys" using g(1) by simp
  qed auto
  then show "(key f \<notin> key ` set ys) = (f \<notin> set ys)" by simp
qed

text \<open>
  Claim C2, as the code has it. A bulk delete over the filtered set, in a list whose keys
  are unique, returns at once when the set is empty: it changes nothing and reports
  nothing. Over a non-empty set of \<open>N\<close> files it sends one \<open>DELETE\<close> request for each
  file of the set, in order, whatever the requests answer. Each success is removed from
  the list as it happens: after the first \<open>k\<close> iterations the loop goes on from a state
  whose count is the number of successes among the first \<open>k\<close> files and whose list is
  the list at the start without those files. With \<open>M\<close> the number of failed requests,
  the bulk delete shows the success notice with the count \<open>N - M\<close>, and the list it
  leaves holds the files that were not in the filtered set and the \<open>M\<close> files whose
  request failed, in their order; under the filter \<open>all\<close> that is the \<open>M\<close> failed
  files alone.
\<close>

theorem bulk_delete_keeps_failed_and_unfiltered:
  assumes "distinct (map key (files s))"
    and "filesToDelete = filteredFiles s"
  shows "(filesToDelete = [] \<longrightarrow> handleDeleteAllFiles request s filesToDelete = (s, []))
       \<and> (filesToDelete \<noteq> [] \<longrightarrow>
           requested_keys (snd (handleDeleteAllFiles request s filesToDelete)) = map key filesToDelete
         \<and> showDeleteSuccess (fst (handleDeleteAllFiles request s filesToDelete))
         \<and> deletedCountInfo (fst (handleDeleteAllFiles request s filesToDelete))
             = length filesToDelete - length (failed_from request 0 filesToDelete)
         \<and> length (failed_from request 0 filesToDelete) \<le> length filesToDelete
         \<and> files (fst (handleDeleteAllFiles request s filesToDelete))
             = filter (\<lambda>f. f \<notin> set filesToDelete \<or> f \<in> set (failed_from request 0 filesToDelete))
                 (files s)
         \<and> (filter' s = FAll \<longrightarrow>
               files (fst (handleDeleteAllFiles request s filesToDelete))
                 = failed_from request 0 filesToDelete)
         \<and> (\<forall>k \<le> length filesToDelete.
               delete_loop request 0 filesToDelete (0, s\<lparr>isDeletingAll := True\<rparr>, [])
                 = delete_loop request k (drop k filesToDelete)
                     (after_iterations request s filesToDelete k)
             \<and> fst (after_iterations request s filesToDelete k)
                 = length (succeeded_from request 0 (take k filesToDelete))
             \<and> files (fst (snd (after_iterations request s filesToDelete k)))
                 = filter (\<lambda>f. f \<notin> set (succeeded_from request 0 (take k filesToDelete)))
                     (files s)))"
proof (intro conjI impI)
  assume "filesToDelete = []"
  then show "handleDeleteAllFiles request s filesToDelete = (s, [])"
    by (simp add: handleDeleteAllFiles_def)
next
  assume ne: "filesToDelete \<noteq> []"
  note whole = bulk_delete_nonempty [OF assms ne, of request]
  show "requested_keys (snd (handleDeleteAllFiles request s filesToDelete)) = map key filesToDelete"
    using whole by simp
  show "showDeleteSuccess (fst (handleDeleteAllFiles request s filesToDelete))"
    using whole by simp
  show "deletedCountInfo (fst (handleDeleteAllFiles request s filesToDelete))
          = length filesToDelete - length (failed_from request 0 filesToDelete)"
    using whole by simp
  show "length (failed_from request 0 filesToDelete) \<le> length filesToDelete"
    using whole by simp
  show "files (fst (handleDeleteAllFiles request s filesToDelete))
          = filter (\<lambda>f. f \<notin> set filesToDelete \<or> f \<in> set (failed_from request 0 filesToDelete))
              (files s)"
    using whole by simp
  show "files (fst (handleDeleteAllFiles request s filesToDelete))
          = failed_from request 0 filesToDelete" if "filter' s = FAll"
    using whole that by blast
  show "\<forall>k \<le> length filesToDelete.
               delete_loop request 0 filesToDelete (0, s\<lparr>isDeletingAll := True\<rparr>, [])
                 = delete_loop request k (drop k filesToDelete)
                     (after_iterations request s filesToDelete k)
             \<and> fst (after_iterations request s filesToDelete k)
                 = length (succeeded_from request 0 (take k filesToDelete))
             \<and> files (fst (snd (after_iterations request s filesToDelete k)))
                 = filter (\<lambda>f. f \<notin> set (succeeded_from request 0 (take k filesToDelete)))
                     (files s)"
  proof (intro allI impI conjI)
    fix k assume k: "k \<le> length filesToDelete"
    have "delete_loop request 0 (take k filesToDelete @ drop k filesToDelete)
            (0, s\<lparr>isDeletingAll := True\<rparr>, [])
          = delete_loop request (0 + length (take k filesToDelete)) (drop k filesToDelete)
              (after_iterations request s filesToDelete k)"
      unfolding after_iterations_def by (rule delete_loop_append)
    then show "delete_loop request 0 filesToDelete (0, s\<lparr>isDeletingAll := True\<rparr>, [])
                 = delete_loop request k (drop k filesToDelete)
                     (after_iterations request s filesToDelete k)"
      using k by (simp add: min_def)
    show "fst (after_iterations request s filesToDelete k)
            = length (succeeded_from request 0 (take k filesToDelete))"
      by (simp add: after_iterations_def delete_loop_result)
    have inj: "inj_on key (set (files s))"
      using assms(1) by (simp add: distinct_map)
    have sub: "set (succeeded_from request 0 (take k filesToDelete)) \<subseteq> set (files s)"
      using succeeded_subset [of request 0 "take k filesToDelete"]
        set_take_subset [of k filesToDelete] filteredFiles_subset [of s] assms(2) by blast
    show "files (fst (snd (after_iterations request s filesToDelete k)))
            = filter (\<lambda>f. f \<notin> set (succeeded_from request 0 (take k filesToDelete))) (files s)"
      using succeeded_keys_filter [OF inj sub]
      by (simp add: after_iterations_def delete_loop_result)
  qed
qed

theorem bulk_delete_witness:
  "requested_keys (snd (handleDeleteAllFiles second_refused scenario_state [photo, song]))
     = [''a'', ''b'']
   \<and> deletedCountInfo (fst (handleDeleteAllFiles second_refused scenario_state [photo, song])) = 1
   \<and> failed_from second_refused 0 [photo, song] = [song]
   \<and> files (fst (handleDeleteAllFiles second_refused scenario_state [photo, song])) = [song]
   \<and> fst (after_iterations second_refused scenario_state [photo, song] 1) = 1
   \<and> files (fst (snd (after_iterations second_refused scenario_state [photo, song] 1))) = [song]
   \<and> filteredFiles (scenario_state\<lparr>filter' := FParticipants\<rparr>) = []
   \<and> handleDeleteAllFiles all_accepted (scenario_state\<lparr>filter' := FParticipants\<rparr>) []
       = (scenario_state\<lparr>filter' := FParticipants\<rparr>, [])"
proof -
  have fs: "filteredFiles scenario_state = [photo, song]"
    by (simp add: scenario_state_eq filteredFiles_def initial_state_def)
  have d: "distinct (map key (files scenario_state))"
    by (simp add: scenario_state_eq photo_def song_def)
  have f: "failed_from second_refused 0 [photo, song] = [song]"
    by (simp add: failed_from_def enumerate_eq_zip upt_rec deleteFile_def second_refused_def)
  have su: "succeeded_from second_refused 0 [photo] = [photo]"
    by (simp add: succeeded_from_def enumerate_eq_zip upt_rec deleteFile_def second_refused_def)
  have a: "filter' scenario_state = FAll"
    by (simp add: scenario_state_eq initial_state_def)
  have fs0: "filteredFiles (scenario_state\<lparr>filter' := FParticipants\<rparr>) = []"
    by (simp add: filteredFiles_def)
  have d0: "distinct (map key (files (scenario_state\<lparr>filter' := FParticipants\<rparr>)))"
    using d by simp
  have one: "(1::nat) \<le> length [photo, song]" by simp
  show ?thesis
    using bulk_delete_keeps_failed_and_unfiltered
        [of scenario_state "[photo, song]" second_refused, OF d fs [symmetric]]
      bulk_delete_keeps_failed_and_unfiltered
        [of "scenario_state\<lparr>filter' := FParticipants\<rparr>" "[]" all_accepted, OF d0 fs0 [symmetric]]
      f a su fs0 one
    by (simp add: scenario_state_eq initial_state_def photo_def song_def)
qed

text \<open>
  The claim as stated, that the list is left with the failed files alone, fails under a
  type filter: deleting the images of the scenario, with no request failing, leaves the
  song. And a bulk delete over an empty set returns at once: it reports no count, so a
  count of 1 from an earlier delete stays.
\<close>

theorem bulk_delete_leaves_other_files:
  "filteredFiles (scenario_state\<lparr>filter' := FType Image\<rparr>) = [photo]
   \<and> failed_from all_accepted 0 [photo] = []
   \<and> files (fst (handleDeleteAllFiles all_accepted (scenario_state\<lparr>filter' := FType Image\<rparr>)
        [photo])) = [song]
   \<and> filteredFiles (scenario_state\<lparr>filter' := FParticipants, deletedCountInfo := 1\<rparr>) = []
   \<and> deletedCountInfo (fst (handleDeleteAllFiles all_accepted
        (scenario_state\<lparr>filter' := FParticipants, deletedCountInfo := 1\<rparr>) [])) = 1"
  by (simp add: scenario_state_eq filteredFiles_def initial_state_def photo_def song_def
      failed_from_def succeeded_from_def enumerate_eq_zip upt_rec deleteFile_def all_accepted_def
      handleDeleteAllFiles_def)

subsection \<open>The single delete\<close>

text \<open>
  Claim C7. A single delete whose request succeeds removes the record from the list
  (every record of that key, and no other), closes the detail view if it shows a record
  of that key and leaves it as it is otherwise, sets the notice's count to 1 and shows
  the notice, and sets a timer of 4000 milliseconds whose callback hides the notice. A
  single delete whose request fails raises an alert and leaves the state as it was.
\<close>

theorem single_delete_success_and_failure:
  "(deleteFile request (key file) \<longrightarrow>
      handleDeleteFile request s file =
        (s\<lparr>files := filter (\<lambda>f. key f \<noteq> key file) (files s),
           fileToDelete := None,
           selectedFile := (if selected_is (selectedFile s) file then None else selectedFile s),
           deletedCountInfo := 1,
           showDeleteSuccess := True\<rparr>,
         [DeleteRequest (key file), SetTimeout HideDeleteSuccess 4000])
      \<and> key file \<notin> key ` set (files (fst (handleDeleteFile request s file)))
      \<and> \<not> showDeleteSuccess (run_callback HideDeleteSuccess (fst (handleDeleteFile request s file))))
   \<and> (\<not> deleteFile request (key file) \<longrightarrow>
      handleDeleteFile request s file = (s, [DeleteRequest (key file), Alert msg_alert]))"
  by (auto simp: handleDeleteFile_def Let_def)

theorem single_delete_witness:
  "handleDeleteFile request_accepted (scenario_state\<lparr>selectedFile := Some photo\<rparr>) photo =
     (scenario_state\<lparr>files := [song], fileToDelete := None, selectedFile := None,
        deletedCountInfo := 1, showDeleteSuccess := True\<rparr>,
      [DeleteRequest ''a'', SetTimeout HideDeleteSuccess 4000])
   \<and> handleDeleteFile request_refused (scenario_state\<lparr>selectedFile := Some photo\<rparr>) photo =
     (scenario_state\<lparr>selectedFile := Some photo\<rparr>, [DeleteRequest ''a'', Alert msg_alert])"
proof -
  have ok: "deleteFile request_accepted (key photo)"
    by (simp add: deleteFile_def request_accepted_def)
  have no: "\<not> deleteFile request_refused (key photo)"
    by (simp add: deleteFile_def request_refused_def)
  show ?thesis
    using single_delete_success_and_failure
        [of request_accepted photo "scenario_state\<lparr>selectedFile := Some photo\<rparr>"]
      single_delete_success_and_failure
        [of request_refused photo "scenario_state\<lparr>selectedFile := Some photo\<rparr>"]
      ok no
    by (simp add: scenario_state_eq initial_state_def selected_is_def photo_def song_def)
qed

subsection \<open>Loading and the views\<close>

lemma map_files_Conforming: "map_files (map Conforming raw) = Some (map enrich raw)"
  by (induction raw) simp_all

lemma loadFiles_conforming:
  "files (loadFiles (Data True (map Conforming raw) err) s)
     = map enrich (filter (\<lambda>r. getFileType r \<noteq> None) raw)"
  by (simp add: loadFiles_def map_files_Conforming filter_map o_def fileType_enrich)

lemma count_loaded:
  "length (filter (\<lambda>f. fileType f = Some t)
             (map enrich (filter (\<lambda>r. getFileType r \<noteq> None) raw)))
     = length (filter (\<lambda>r. getFileType r = Some t) raw)"
  by (induction raw) (auto simp: fileType_enrich)

text \<open>
  Claim C6. After a load of conforming records, every view, whatever the filter, holds
  only records that \<open>getFileType\<close> classified; the record of an unclassified
  (unknown) file is in no view; the view \<open>all\<close> is the classified records, in order;
  and each of the five counts counts classified records only. For the scenario's list
  \<open>photo.jpg\<close>, \<open>song.mp3\<close>, \<open>clip.exe\<close> (keys \<open>a\<close>, \<open>b\<close>, \<open>c\<close>), served by the
  facade at any clock and loaded from any state, the view \<open>all\<close> is \<open>a\<close>, an image,
  and \<open>b\<close>, an audio file, and the counts are 2, 1, 0, 1, 0.
\<close>

theorem unknown_records_are_in_no_view:
  "(\<forall>flt. \<forall>f \<in> set (filteredFiles
        ((loadFiles (Data True (map Conforming raw) err) s)\<lparr>filter' := flt\<rparr>)).
        \<exists>r \<in> set raw. f = enrich r \<and> getFileType r \<noteq> None)
   \<and> (\<forall>r \<in> set raw. getFileType r = None \<longrightarrow>
        (\<forall>flt. enrich r \<notin> set (filteredFiles
           ((loadFiles (Data True (map Conforming raw) err) s)\<lparr>filter' := flt\<rparr>))))
   \<and> filteredFiles ((loadFiles (Data True (map Conforming raw) err) s)\<lparr>filter' := FAll\<rparr>)
        = map enrich (filter (\<lambda>r. getFileType r \<noteq> None) raw)
   \<and> fileCounts (loadFiles (Data True (map Conforming raw) err) s)
        = \<lparr>all' = length (filter (\<lambda>r. getFileType r \<noteq> None) raw),
           image' = length (filter (\<lambda>r. getFileType r = Some Image) raw),
           video' = length (filter (\<lambda>r. getFileType r = Some Video) raw),
           audio' = length (filter (\<lambda>r. getFileType r = Some Audio) raw),
           text' = length (filter (\<lambda>r. getFileType r = Some Text) raw)\<rparr>
   \<and> map key (filteredFiles
        ((loadFiles (delivered (fst (GET clock scenario_listing))) s)\<lparr>filter' := FAll\<rparr>))
        = [''a'', ''b'']
   \<and> map fileType (filteredFiles
        ((loadFiles (delivered (fst (GET clock scenario_listing))) s)\<lparr>filter' := FAll\<rparr>))
        = [Some Image, Some Audio]
   \<and> fileCounts (loadFiles (delivered (fst (GET clock scenario_listing))) s)
        = \<lparr>all' = 2, image' = 1, video' = 0, audio' = 1, text' = 0\<rparr>"
proof -
  let ?L = "loadFiles (Data True (map Conforming raw) err) s"
  let ?S = "loadFiles (delivered (fst (GET clock scenario_listing))) s"
  have kept: "files ?L = map enrich (filter (\<lambda>r. getFileType r \<noteq> None) raw)"
    by (rule loadFiles_conforming)
  have views: "set (filteredFiles (?L\<lparr>filter' := flt\<rparr>))
                 \<subseteq> enrich ` {r \<in> set raw. getFileType r \<noteq> None}" for flt
    using filteredFiles_subset [of "?L\<lparr>filter' := flt\<rparr>"] by (auto simp: kept)
  have a: "\<forall>flt. \<forall>f \<in> set (filteredFiles (?L\<lparr>filter' := flt\<rparr>)).
             \<exists>r \<in> set raw. f = enrich r \<and> getFileType r \<noteq> None"
    using views by blast
  have b: "\<forall>r \<in> set raw. getFileType r = None \<longrightarrow>
             (\<forall>flt. enrich r \<notin> set (filteredFiles (?L\<lparr>filter' := flt\<rparr>)))"
  proof (intro ballI impI allI notI)
    fix r flt
    assume "getFileType r = None" and "enrich r \<in> set (filteredFiles (?L\<lparr>filter' := flt\<rparr>))"
    then obtain r' where "enrich r = enrich r'" "getFileType r' \<noteq> None"
      using views [of flt] by auto
    then have "fileType (enrich r) \<noteq> None" by (simp add: fileType_enrich)
    then show False using \<open>getFileType r = None\<close> by (simp add: fileType_enrich)
  qed
  have c: "filteredFiles (?L\<lparr>filter' := FAll\<rparr>)
             = map enrich (filter (\<lambda>r. getFileType r \<noteq> None) raw)"
    by (simp add: filteredFiles_def kept)
  have d: "fileCounts ?L
        = \<lparr>all' = length (filter (\<lambda>r. getFileType r \<noteq> None) raw),
           image' = length (filter (\<lambda>r. getFileType r = Some Image) raw),
           video' = length (filter (\<lambda>r. getFileType r = Some Video) raw),
           audio' = length (filter (\<lambda>r. getFileType r = Some Audio) raw),
           text' = length (filter (\<lambda>r. getFileType r = Some Text) raw)\<rparr>"
    unfolding fileCounts_def kept count_loaded by simp
  have loaded: "files ?S = [photo, song]"
    by (simp add: loadFiles_def delivered_def GET_def scenario_listing_def scenario_files_def
      json_def received_def formatFile_def enrich_def getFileType_def extension_of_def mimeType_of_def
      mime_startsWith_def startsWith_def includes'_def or_empty_def pop_def toLowerCase_def
      toLowerCase_char_def upper_letters_def lower_letters_def image_extensions_def
      video_extensions_def audio_extensions_def text_extensions_def
      Let_def photo_def song_def size_or_zero_def name_or_default_def customId_or_null_def)
  have e: "map key (filteredFiles (?S\<lparr>filter' := FAll\<rparr>)) = [''a'', ''b'']"
    by (simp add: filteredFiles_def loaded photo_def song_def)
  have f: "map fileType (filteredFiles (?S\<lparr>filter' := FAll\<rparr>)) = [Some Image, Some Audio]"
    by (simp add: filteredFiles_def loaded photo_def song_def)
  have g: "fileCounts ?S = \<lparr>all' = 2, image' = 1, video' = 0, audio' = 1, text' = 0\<rparr>"
    by (simp add: fileCounts_def loaded photo_def song_def)
  from a b c d e f g show ?thesis by blast
qed

theorem unknown_records_witness:
  "getFileType clip = None
   \<and> clip \<in> set scenario_records
   \<and> filteredFiles ((loadFiles (Data True (map Conforming scenario_records) None) initial_state)
        \<lparr>filter' := FAll\<rparr>) = [photo, song]
   \<and> enrich clip \<notin> set (filteredFiles
        ((loadFiles (Data True (map Conforming scenario_records) None) initial_state)
           \<lparr>filter' := FAll\<rparr>))
   \<and> fileCounts (loadFiles (Data True (map Conforming scenario_records) None) initial_state)
        = \<lparr>all' = 2, image' = 1, video' = 0, audio' = 1, text' = 0\<rparr>"
proof -
  have types: "getFileType (photo\<lparr>fileType := None\<rparr>) = Some Image"
    "getFileType (song\<lparr>fileType := None\<rparr>) = Some Audio" "getFileType clip = None"
    by (simp_all add: getFileType_def extension_of_def mimeType_of_def
      mime_startsWith_def startsWith_def includes'_def or_empty_def pop_def toLowerCase_def
      toLowerCase_char_def upper_letters_def lower_letters_def image_extensions_def
      video_extensions_def audio_extensions_def text_extensions_def
      Let_def photo_def song_def clip_def)
  have rich: "enrich (photo\<lparr>fileType := None\<rparr>) = photo" "enrich (song\<lparr>fileType := None\<rparr>) = song"
    unfolding enrich_def types
    by (simp_all add: photo_def song_def size_or_zero_def name_or_default_def)
  have none: "fileType (enrich clip) = None"
    by (simp add: enrich_def types)
  show ?thesis
    using unknown_records_are_in_no_view [of scenario_records None initial_state fixed_clock]
      types rich none
    by (auto simp: scenario_records_def photo_def song_def)
qed

subsection \<open>The invariant of the list\<close>

lemma supported_loadFiles:
  assumes "\<forall>f \<in> set (files s). fileType f \<noteq> None"
  shows "\<forall>f \<in> set (files (loadFiles reply s)). fileType f \<noteq> None"
proof (cases reply)
  case (FetchThrows e)
  then show ?thesis using assms by (simp add: loadFiles_def)
next
  case (HttpNotOk st)
  then show ?thesis using assms by (simp add: loadFiles_def)
next
  case (Data ok fs err)
  then show ?thesis
    using assms by (cases "map_files fs"; cases ok) (simp_all add: loadFiles_def Let_def)
qed

lemma files_handleDeleteFile:
  "set (files (fst (handleDeleteFile request s file))) \<subseteq> set (files s)"
  by (auto simp: handleDeleteFile_def Let_def)

lemma files_handleDeleteAllFiles:
  "set (files (fst (handleDeleteAllFiles requests s filesToDelete))) \<subseteq> set (files s)"
proof (cases "filesToDelete = []")
  case True
  then show ?thesis by (simp add: handleDeleteAllFiles_def)
next
  case False
  then show ?thesis by (auto simp: handleDeleteAllFiles_result)
qed

lemma files_run_callback: "files (run_callback cb s) = files s"
  by (cases cb) simp

lemma reachable_supported:
  "reachable s \<Longrightarrow> \<forall>f \<in> set (files s). fileType f \<noteq> None"
proof (induction rule: reachable.induct)
  case init
  then show ?case by (simp add: initial_state_def)
next
  case (load s reply)
  show ?case using load.IH by (rule supported_loadFiles)
next
  case (delete_one s request x)
  then show ?case using files_handleDeleteFile [of request s x] by blast
next
  case (delete_all s requests filesToDelete)
  then show ?case using files_handleDeleteAllFiles [of requests s filesToDelete] by blast
next
  case (timer s cb)
  then show ?case by (simp add: files_run_callback)
qed simp_all

lemma counts_partition:
  "\<forall>f \<in> set xs. fileType f \<noteq> None \<Longrightarrow>
     length xs = length (filter (\<lambda>f. fileType f = Some Image) xs)
               + length (filter (\<lambda>f. fileType f = Some Video) xs)
               + length (filter (\<lambda>f. fileType f = Some Audio) xs)
               + length (filter (\<lambda>f. fileType f = Some Text) xs)"
proof (induction xs)
  case Nil
  then show ?case by simp
next
  case (Cons x xs)
  from Cons.prems obtain t where t: "fileType x = Some t" by auto
  show ?case using Cons t by (cases t) simp_all
qed

text \<open>
  Claim C10. In every state the viewer can reach, each record of the list has a type among
  image, video, audio and text, and the count \<open>all\<close> is the sum of the counts of the four
  types.
\<close>

theorem counts_partition_the_list:
  assumes "reachable s"
  shows "(\<forall>f \<in> set (files s). fileType f \<in> {Some Image, Some Video, Some Audio, Some Text})
         \<and> all' (fileCounts s)
             = image' (fileCounts s) + video' (fileCounts s)
               + audio' (fileCounts s) + text' (fileCounts s)"
proof
  have sup: "\<forall>f \<in> set (files s). fileType f \<noteq> None"
    using assms by (rule reachable_supported)
  show "\<forall>f \<in> set (files s). fileType f \<in> {Some Image, Some Video, Some Audio, Some Text}"
  proof
    fix f assume "f \<in> set (files s)"
    then obtain t where "fileType f = Some t" using sup by auto
    then show "fileType f \<in> {Some Image, Some Video, Some Audio, Some Text}"
      by (cases t) simp_all
  qed
  show "all' (fileCounts s)
          = image' (fileCounts s) + video' (fileCounts s)
            + audio' (fileCounts s) + text' (fileCounts s)"
    using counts_partition [OF sup] by (simp add: fileCounts_def)
qed

theorem counts_partition_witness:
  "reachable (fst (handleDeleteFile request_accepted scenario_state photo))
   \<and> map fileType (files (fst (handleDeleteFile request_accepted scenario_state photo)))
       = [Some Audio]
   \<and> fileCounts (fst (handleDeleteFile request_accepted scenario_state photo))
       = \<lparr>all' = 1, image' = 0, video' = 0, audio' = 1, text' = 0\<rparr>"
proof -
  have r: "reachable (fst (handleDeleteFile request_accepted scenario_state photo))"
    unfolding scenario_state_def by (intro reachable.delete_one reachable.load reachable.init)
  have fs: "files (fst (handleDeleteFile request_accepted scenario_state photo)) = [song]"
    by (simp add: handleDeleteFile_def deleteFile_def request_accepted_def scenario_state_eq
        initial_state_def photo_def song_def selected_is_def Let_def)
  show ?thesis
    using counts_partition_the_list [OF r] r fs
    by (simp add: fileCounts_def song_def)
qed

end
